theory Spec2Isabelle
  imports Main "HOL-Library.Sublist"
begin

section \<open>The tool router of spotify-mcp (src/spotify_mcp/server.py)\<close>

text \<open>
  The five tool functions \<open>SpotifyPlayback\<close>, \<open>SpotifySearch\<close>, \<open>SpotifyQueue\<close>,
  \<open>SpotifyGetInfo\<close> and \<open>SpotifyPlaylist\<close> are embedded as functions that return the
  value handed back to the transport together with a trace of what the call did: the
  lines given to the logger and the adapter methods invoked, in order.

  The collaborators that are not part of server.py (the vendor client
  \<open>spotify_client\<close>, the functions \<open>json.dumps\<close> and \<open>json.loads\<close> of the standard
  library, and \<open>str()\<close> of an adapter value inside an f-string) are the fields of an
  environment record, so every theorem holds whatever they compute.
\<close>

subsection \<open>Python values\<close>

text \<open>
  The values an adapter method returns and \<open>json.loads\<close> produces: \<open>None\<close>, booleans,
  integers, floats, strings, lists and string-keyed dictionaries (in insertion order).
  A float is kept as sign, mantissa and binary exponent, or as one of the three special
  values; the router only ever tests it for truth.
\<close>

datatype pyfloat = Finite bool nat int | Inf bool | NaN

datatype pyval =
    PNone
  | PBool bool
  | PInt int
  | PFloat pyfloat
  | PStr string
  | PList "pyval list"
  | PDict "(string \<times> pyval) list"

text \<open>Truth value testing, as \<open>if x:\<close> and \<open>not x\<close> perform it.\<close>

fun truthy :: "pyval \<Rightarrow> bool" where
  "truthy PNone = False"
| "truthy (PBool b) = b"
| "truthy (PInt i) = (i \<noteq> 0)"
| "truthy (PFloat (Finite s m e)) = (m \<noteq> 0)"
| "truthy (PFloat f) = True"
| "truthy (PStr s) = (s \<noteq> [])"
| "truthy (PList xs) = (xs \<noteq> [])"
| "truthy (PDict kvs) = (kvs \<noteq> [])"

text \<open>Truth of an \<open>Optional[str]\<close> parameter: \<open>None\<close> and the empty string are false.\<close>

fun truthy_str :: "string option \<Rightarrow> bool" where
  "truthy_str None = False"
| "truthy_str (Some s) = (s \<noteq> [])"

fun type_name :: "pyval \<Rightarrow> string" where
  "type_name PNone = ''NoneType''"
| "type_name (PBool b) = ''bool''"
| "type_name (PInt i) = ''int''"
| "type_name (PFloat f) = ''float''"
| "type_name (PStr s) = ''str''"
| "type_name (PList xs) = ''list''"
| "type_name (PDict kvs) = ''dict''"

subsection \<open>Exceptions\<close>

text \<open>
  The instances of Python's \<open>Exception\<close> class, split the way the handlers of server.py
  tell them apart: \<open>spotipy.SpotifyException\<close>, \<open>json.JSONDecodeError\<close>, and every other
  subclass of \<open>Exception\<close>; among the others \<open>ValueError\<close> (one that is not a
  \<open>JSONDecodeError\<close>) has a constructor of its own, because the interpreter raises it
  when an integer is too long to be written out. Each carries the text \<open>str(e)\<close> returns.
\<close>

datatype exn =
    SpotifyException string
  | JSONDecodeError string
  | ValueError string
  | OtherException string

fun str_exn :: "exn \<Rightarrow> string" where
  "str_exn (SpotifyException m) = m"
| "str_exn (JSONDecodeError m) = m"
| "str_exn (ValueError m) = m"
| "str_exn (OtherException m) = m"

text \<open>
  \<open>curr_track.get('name', 'Unknown')\<close>: only a dictionary has the method; on any other
  value the attribute lookup raises \<open>AttributeError\<close>.
\<close>

definition py_get :: "pyval \<Rightarrow> string \<Rightarrow> pyval \<Rightarrow> exn + pyval" where
  "py_get v k dflt =
     (case v of
        PDict kvs \<Rightarrow> (case map_of kvs k of Some x \<Rightarrow> Inr x | None \<Rightarrow> Inr dflt)
      | _ \<Rightarrow> Inl (OtherException
                 ([CHR 0x27] @ type_name v @ [CHR 0x27] @ '' object has no attribute ''
                  @ [CHR 0x27] @ ''get'' @ [CHR 0x27])))"

subsection \<open>Formatting inside f-strings\<close>

text \<open>
  An f-string writes an \<open>int\<close> in decimal. CPython refuses the conversion, with a
  \<open>ValueError\<close>, when the integer has more decimal digits (the sign not counted) than
  \<open>sys.get_int_max_str_digits()\<close>, which is
  \<open>sys.int_info.default_max_str_digits = 4300\<close> unless the process is started otherwise;
  server.py does not change it. \<open>None\<close> and a \<open>str\<close> are written as they are.
\<close>

definition int_max_str_digits :: nat where
  "int_max_str_digits = 4300"

definition str_digits_error :: exn where
  "str_digits_error = ValueError
     ''Exceeds the limit (4300 digits) for integer string conversion; use sys.set_int_max_str_digits() to increase the limit''"

definition digit_char :: "nat \<Rightarrow> char" where
  "digit_char d = ''0123456789'' ! d"

fun str_nat :: "nat \<Rightarrow> string" where
  "str_nat n = (if n < 10 then [digit_char n] else str_nat (n div 10) @ [digit_char (n mod 10)])"

declare str_nat.simps [simp del]

definition str_int :: "int \<Rightarrow> exn + string" where
  "str_int i =
     (let digits = str_nat (nat \<bar>i\<bar>) in
      if int_max_str_digits < length digits then Inl str_digits_error
      else Inr (if i < 0 then CHR ''-'' # digits else digits))"

fun fmt_opt_str :: "string option \<Rightarrow> string" where
  "fmt_opt_str None = ''None''"
| "fmt_opt_str (Some s) = s"

fun fmt_opt_int :: "int option \<Rightarrow> exn + string" where
  "fmt_opt_int None = Inr ''None''"
| "fmt_opt_int (Some i) = str_int i"

subsection \<open>The adapter and the environment\<close>

text \<open>
  One constructor for each method of \<open>spotify_client\<close> that server.py calls, with the
  arguments of the call. Parameters typed \<open>Optional[str]\<close> are passed on as they are.
\<close>

datatype adapter_call =
    get_current_track
  | start_playback "string option"
  | pause_playback
  | skip_track int
  | search string string int
  | add_to_queue "string option"
  | get_queue
  | get_info string
  | get_current_user_playlists
  | get_playlist_tracks "string option"
  | add_tracks_to_playlist "string option" pyval
  | remove_tracks_from_playlist "string option" pyval
  | change_playlist_details "string option" "string option" "string option"

text \<open>
  \<open>adapter\<close> answers a call with the value returned or the exception raised;
  \<open>json_dumps v n\<close> is \<open>json.dumps(v, indent=n)\<close>; \<open>json_loads s\<close> is \<open>json.loads(s)\<close>;
  \<open>py_format v\<close> is the text an f-string inserts for the adapter value \<open>v\<close>, or the
  exception its conversion raises.
\<close>

record env =
  adapter :: "adapter_call \<Rightarrow> exn + pyval"
  json_dumps :: "pyval \<Rightarrow> nat \<Rightarrow> exn + string"
  json_loads :: "string \<Rightarrow> exn + pyval"
  py_format :: "pyval \<Rightarrow> exn + string"

subsection \<open>Effects: the logger and the trace of adapter calls\<close>

datatype level = INFO | ERROR

record trace =
  logged :: "(level \<times> string) list"
  calls :: "adapter_call list"

definition no_trace :: trace where
  "no_trace = \<lparr>logged = [], calls = []\<rparr>"

text \<open>
  A statement of server.py is a function from the trace so far to the value it yields,
  or the exception it raises, and the trace afterwards.
\<close>

type_synonym 'a prog = "trace \<Rightarrow> (exn + 'a) \<times> trace"

definition ret :: "'a \<Rightarrow> 'a prog" where
  "ret x = (\<lambda>t. (Inr x, t))"

definition lib :: "exn + 'a \<Rightarrow> 'a prog" where
  "lib r = (\<lambda>t. (r, t))"

definition bind_p :: "'a prog \<Rightarrow> ('a \<Rightarrow> 'b prog) \<Rightarrow> 'b prog" where
  "bind_p m f = (\<lambda>t. case m t of (Inl e, t') \<Rightarrow> (Inl e, t') | (Inr x, t') \<Rightarrow> f x t')"

definition seq_p :: "'a prog \<Rightarrow> 'b prog \<Rightarrow> 'b prog" where
  "seq_p m k = bind_p m (\<lambda>_. k)"

definition logger_info :: "string \<Rightarrow> unit prog" where
  "logger_info msg = (\<lambda>t. (Inr (), t\<lparr>logged := logged t @ [(INFO, msg)]\<rparr>))"

definition logger_error :: "string \<Rightarrow> unit prog" where
  "logger_error msg = (\<lambda>t. (Inr (), t\<lparr>logged := logged t @ [(ERROR, msg)]\<rparr>))"

definition spotify_client :: "env \<Rightarrow> adapter_call \<Rightarrow> pyval prog" where
  "spotify_client E c = (\<lambda>t. (adapter E c, t\<lparr>calls := calls t @ [c]\<rparr>))"

text \<open>
  The two handlers that close the \<open>try\<close> block of every tool, in the order Python
  tries them:
  \<^verbatim>\<open>
    except SpotifyException as se:
        error_msg = f"Spotify Client error occurred: {str(se)}"
        logger.error(error_msg)
        return f"An error occurred with the Spotify Client: {str(se)}"
    except Exception as e:
        error_msg = f"Unexpected error occurred: {str(e)}"
        logger.error(error_msg)
        return error_msg
  \<close>
\<close>

fun handlers :: "exn \<Rightarrow> string prog" where
  "handlers (SpotifyException m) =
     seq_p (logger_error (''Spotify Client error occurred: '' @ m))
       (ret (''An error occurred with the Spotify Client: '' @ m))"
| "handlers e =
     seq_p (logger_error (''Unexpected error occurred: '' @ str_exn e))
       (ret (''Unexpected error occurred: '' @ str_exn e))"

definition try_except :: "string prog \<Rightarrow> string prog" where
  "try_except body =
     (\<lambda>t. case body t of (Inr s, t') \<Rightarrow> (Inr s, t') | (Inl e, t') \<Rightarrow> handlers e t')"

subsection \<open>Defaulting of optional parameters\<close>

text \<open>\<open>x or d\<close> for an \<open>Optional[int]\<close> and for an \<open>Optional[str]\<close>.\<close>

fun or_int :: "int option \<Rightarrow> int \<Rightarrow> int" where
  "or_int None d = d"
| "or_int (Some k) d = (if k = 0 then d else k)"

fun or_str :: "string option \<Rightarrow> string \<Rightarrow> string" where
  "or_str None d = d"
| "or_str (Some s) d = (if s = [] then d else s)"

subsection \<open>The tools\<close>

text \<open>
  Every tool writes a line to the log and then enters its \<open>try\<close> block. The text of that
  line is built first, outside the block: where it holds an integer parameter
  (\<open>num_skips\<close>, \<open>limit\<close>) the conversion can raise, and nothing catches it. The line
  "Skipping n tracks." is built inside the block.
\<close>

definition SpotifyPlayback ::
  "env \<Rightarrow> string \<Rightarrow> string option \<Rightarrow> int option \<Rightarrow> (exn + string) \<times> trace" where
  "SpotifyPlayback E action spotify_uri num_skips =
     bind_p (lib (fmt_opt_int num_skips)) (\<lambda>shown_skips.
     seq_p (logger_info (''Playback action: '' @ action @ '' with arguments: spotify_uri=''
                         @ fmt_opt_str spotify_uri @ '', num_skips='' @ shown_skips))
       (try_except
         (if action = ''get'' then
            seq_p (logger_info ''Attempting to get current track'')
              (bind_p (spotify_client E get_current_track) (\<lambda>curr_track.
                 if truthy curr_track then
                   bind_p (lib (py_get curr_track ''name'' (PStr ''Unknown''))) (\<lambda>nm.
                     bind_p (lib (py_format E nm)) (\<lambda>shown_name.
                       seq_p (logger_info (''Current track retrieved: '' @ shown_name))
                         (lib (json_dumps E curr_track 2))))
                 else
                   seq_p (logger_info ''No track currently playing'')
                     (ret ''No track playing.'')))
          else if action = ''start'' then
            seq_p (logger_info (''Starting playback with spotify_uri: '' @ fmt_opt_str spotify_uri))
              (seq_p (spotify_client E (start_playback spotify_uri))
                (seq_p (logger_info ''Playback started successfully'')
                  (ret ''Playback starting.'')))
          else if action = ''pause'' then
            seq_p (logger_info ''Attempting to pause playback'')
              (seq_p (spotify_client E pause_playback)
                (seq_p (logger_info ''Playback paused successfully'')
                  (ret ''Playback paused.'')))
          else if action = ''skip'' then
            (let n = or_int num_skips 1 in
             bind_p (lib (str_int n)) (\<lambda>shown_n.
               seq_p (logger_info (''Skipping '' @ shown_n @ '' tracks.''))
                 (seq_p (spotify_client E (skip_track n))
                   (ret ''Skipped to next track.''))))
          else
            ret (''Unknown action: '' @ action
                 @ ''. Supported actions are: get, start, pause, skip.''))))
       no_trace"

definition SpotifySearch ::
  "env \<Rightarrow> string \<Rightarrow> string option \<Rightarrow> int option \<Rightarrow> (exn + string) \<times> trace" where
  "SpotifySearch E query qtype limit =
     bind_p (lib (fmt_opt_int limit)) (\<lambda>shown_limit.
     seq_p (logger_info (''Performing search with query: '' @ query @ '', type: ''
                         @ fmt_opt_str qtype @ '', limit: '' @ shown_limit))
       (try_except
         (bind_p (spotify_client E (search query (or_str qtype ''track'') (or_int limit 10)))
            (\<lambda>search_results.
               seq_p (logger_info ''Search completed successfully.'')
                 (lib (json_dumps E search_results 2))))))
       no_trace"

definition SpotifyQueue ::
  "env \<Rightarrow> string \<Rightarrow> string option \<Rightarrow> (exn + string) \<times> trace" where
  "SpotifyQueue E action track_id =
     seq_p (logger_info (''Queue operation with action: '' @ action @ '', track_id: ''
                         @ fmt_opt_str track_id))
       (try_except
         (if action = ''add'' then
            (if \<not> truthy_str track_id then
               seq_p (logger_error ''track_id is required for add to queue.'')
                 (ret ''track_id is required for add action'')
             else
               seq_p (spotify_client E (add_to_queue track_id))
                 (ret ''Track added to queue.''))
          else if action = ''get'' then
            bind_p (spotify_client E get_queue) (\<lambda>queue. lib (json_dumps E queue 2))
          else
            ret (''Unknown queue action: '' @ action
                 @ ''. Supported actions are: add and get.'')))
       no_trace"

definition SpotifyGetInfo :: "env \<Rightarrow> string \<Rightarrow> (exn + string) \<times> trace" where
  "SpotifyGetInfo E item_uri =
     seq_p (logger_info (''Getting item info for uri: '' @ item_uri))
       (try_except
         (bind_p (spotify_client E (get_info item_uri))
            (\<lambda>item_info. lib (json_dumps E item_info 2))))
       no_trace"

text \<open>
  \<open>track_ids\<close> is annotated \<open>Optional[List[str]]\<close>, and the function tests
  \<open>isinstance(track_ids, str)\<close>: it is whatever value the caller sent. The text is
  decoded inside a \<open>try\<close> of its own, whose only handler is for \<open>json.JSONDecodeError\<close>
  and returns from the function; any other exception of \<open>json.loads\<close> goes on to the
  handlers of the tool.
\<close>

definition decode_track_ids ::
  "env \<Rightarrow> pyval \<Rightarrow> (pyval \<Rightarrow> string prog) \<Rightarrow> string prog" where
  "decode_track_ids E track_ids rest =
     (case track_ids of
        PStr s \<Rightarrow>
          (case json_loads E s of
             Inl (JSONDecodeError m) \<Rightarrow>
               ret ''Error: track_ids must be a list or a valid JSON array.''
           | Inl e \<Rightarrow> lib (Inl e)
           | Inr v \<Rightarrow> rest v)
      | _ \<Rightarrow> rest track_ids)"

definition SpotifyPlaylist ::
  "env \<Rightarrow> string \<Rightarrow> string option \<Rightarrow> pyval \<Rightarrow> string option \<Rightarrow> string option
     \<Rightarrow> (exn + string) \<times> trace" where
  "SpotifyPlaylist E action playlist_id track_ids name description =
     seq_p (logger_info (''Playlist operation with action: '' @ action))
       (try_except
         (if action = ''get'' then
            seq_p (logger_info ''Getting current user's playlists'')
              (bind_p (spotify_client E get_current_user_playlists)
                 (\<lambda>playlists. lib (json_dumps E playlists 2)))
          else if action = ''get_tracks'' then
            (if \<not> truthy_str playlist_id then
               seq_p (logger_error ''playlist_id is required for get_tracks action.'')
                 (ret ''playlist_id is required for get_tracks action.'')
             else
               seq_p (logger_info (''Getting tracks in playlist: '' @ fmt_opt_str playlist_id))
                 (bind_p (spotify_client E (get_playlist_tracks playlist_id))
                    (\<lambda>tracks. lib (json_dumps E tracks 2))))
          else if action = ''add_tracks'' then
            (if \<not> truthy_str playlist_id \<or> \<not> truthy track_ids then
               ret ''playlist_id and track_ids are required for add_tracks action.''
             else
               seq_p (logger_info (''Adding tracks to playlist: '' @ fmt_opt_str playlist_id))
                 (decode_track_ids E track_ids (\<lambda>track_ids.
                    seq_p (spotify_client E (add_tracks_to_playlist playlist_id track_ids))
                      (ret ''Tracks added to playlist.''))))
          else if action = ''remove_tracks'' then
            (if \<not> truthy_str playlist_id \<or> \<not> truthy track_ids then
               ret ''playlist_id and track_ids are required for remove_tracks action.''
             else
               seq_p (logger_info (''Removing tracks from playlist: '' @ fmt_opt_str playlist_id))
                 (decode_track_ids E track_ids (\<lambda>track_ids.
                    seq_p (spotify_client E (remove_tracks_from_playlist playlist_id track_ids))
                      (ret ''Tracks removed from playlist.''))))
          else if action = ''change_details'' then
            (if \<not> truthy_str playlist_id then
               ret ''playlist_id is required for change_details action.''
             else if \<not> truthy_str name \<and> \<not> truthy_str description then
               ret ''At least one of name or description is required.''
             else
               seq_p (logger_info (''Changing playlist details for: '' @ fmt_opt_str playlist_id))
                 (seq_p (spotify_client E (change_playlist_details playlist_id name description))
                   (ret ''Playlist details changed.'')))
          else
            ret (''Unknown playlist action: '' @ action
                 @ ''. Supported actions are: get, get_tracks, add_tracks, remove_tracks, change_details.'')))
       no_trace"

text \<open>
  The input models \<open>Playback\<close>, \<open>Search\<close>, \<open>Queue\<close>, \<open>GetInfo\<close> and \<open>Playlist\<close> of
  server.py, one constructor each with the fields in the order the class declares them,
  and the call of the tool that takes them.
\<close>

datatype tool =
    Playback string "string option" "int option"
  | Search string "string option" "int option"
  | Queue string "string option"
  | GetInfo string
  | Playlist string "string option" pyval "string option" "string option"

fun call_tool :: "env \<Rightarrow> tool \<Rightarrow> (exn + string) \<times> trace" where
  "call_tool E (Playback action spotify_uri num_skips) = SpotifyPlayback E action spotify_uri num_skips"
| "call_tool E (Search query qtype limit) = SpotifySearch E query qtype limit"
| "call_tool E (Queue action track_id) = SpotifyQueue E action track_id"
| "call_tool E (GetInfo item_uri) = SpotifyGetInfo E item_uri"
| "call_tool E (Playlist action playlist_id track_ids name description) =
     SpotifyPlaylist E action playlist_id track_ids name description"

text \<open>The parameter of a request that is typed \<open>Optional[int]\<close>, if it has one.\<close>

fun int_argument :: "tool \<Rightarrow> int option" where
  "int_argument (Playback action spotify_uri num_skips) = num_skips"
| "int_argument (Search query qtype limit) = limit"
| "int_argument req = None"

text \<open>
  An \<open>Optional[int]\<close> that an f-string can write: \<open>None\<close>, or an integer of at most
  \<open>int_max_str_digits\<close> decimal digits.
\<close>

fun renderable :: "int option \<Rightarrow> bool" where
  "renderable None = True"
| "renderable (Some k) = (\<bar>k\<bar> < 10 ^ int_max_str_digits)"



definition playlist_actions :: "string list" where
  "playlist_actions = [''get'', ''get_tracks'', ''add_tracks'', ''remove_tracks'', ''change_details'']"

text \<open>Number of calls of \<open>logger.error\<close> in a trace.\<close>

definition error_count :: "trace \<Rightarrow> nat" where
  "error_count t = length (filter (\<lambda>(lv, msg). lv = ERROR) (logged t))"

text \<open>
  A text \<open>s\<close> is a JSON encoding of the list of track ids \<open>L\<close> when \<open>json.loads\<close>
  decodes it to that list. A JSON text is never empty.
\<close>

definition json_array_of :: "env \<Rightarrow> string \<Rightarrow> string list \<Rightarrow> bool" where
  "json_array_of E s L \<longleftrightarrow> s \<noteq> [] \<and> json_loads E s = Inr (PList (map PStr L))"

subsection \<open>Notions used in the proofs\<close>

text \<open>
  What the handlers make of an exception \<open>e\<close>: the string handed back, and for a vendor
  exception the single error line in the log.
\<close>

definition vendor_error_reported :: "exn \<Rightarrow> (exn + string) \<times> trace \<Rightarrow> bool" where
  "vendor_error_reported e out \<longleftrightarrow>
     (\<forall>m. e = SpotifyException m \<longrightarrow>
            fst out = Inr (''An '' @ ''error occurred with the Spotify Client: '' @ m)
            \<and> error_count (snd out) = 1
            \<and> (ERROR, ''Spotify Client error occurred: '' @ m) \<in> set (logged (snd out)))
     \<and> ((\<forall>m. e \<noteq> SpotifyException m) \<longrightarrow>
            fst out = Inr (''Unexpected error occurred: '' @ str_exn e))"

text \<open>
  The value of \<open>track_ids\<close> that reaches the adapter in \<open>add_tracks\<close> and
  \<open>remove_tracks\<close>, if one does: a text is decoded first, any other value is passed on.
\<close>

definition track_ids_arg :: "env \<Rightarrow> pyval \<Rightarrow> pyval option" where
  "track_ids_arg E track_ids =
     (case track_ids of
        PStr s \<Rightarrow> (case json_loads E s of Inr v \<Rightarrow> Some v | Inl e \<Rightarrow> None)
      | _ \<Rightarrow> Some track_ids)"

subsection \<open>An environment to run the tools in\<close>

text \<open>
  The collaborators tabulated on a few inputs, with the answers Python and spotipy give
  there: a track is playing, no device is active (so pausing fails with a vendor
  exception), the connection drops while the queue is fetched, a search finds nothing.
\<close>

definition sample_adapter :: "adapter_call \<Rightarrow> exn + pyval" where
  "sample_adapter c =
     (case c of
        get_current_track \<Rightarrow> Inr (PDict [(''name'', PStr ''Song'')])
      | pause_playback \<Rightarrow> Inl (SpotifyException ''http status: 404, code: -1 - No active device found'')
      | get_queue \<Rightarrow> Inl (OtherException ''Connection aborted.'')
      | search q t l \<Rightarrow> Inr (PDict [])
      | _ \<Rightarrow> Inr PNone)"

definition sample_dumps :: "pyval \<Rightarrow> nat \<Rightarrow> exn + string" where
  "sample_dumps v n =
     (if v = PDict [] then Inr ''{}''
      else if v = PNone then Inr ''null''
      else Inl (OtherException ''value outside the table''))"

definition sample_loads :: "string \<Rightarrow> exn + pyval" where
  \<open>sample_loads s =
     (if s = ''["a", "b"]'' then Inr (PList [PStr ''a'', PStr ''b''])
      else if s = ''[]'' then Inr (PList [])
      else if s = [] then Inl (JSONDecodeError ''Expecting value: line 1 column 1 (char 0)'')
      else if s = ''not json'' then Inl (JSONDecodeError ''Expecting value: line 1 column 1 (char 0)'')
      else Inl (OtherException ''text outside the table''))\<close>

definition sample_format :: "pyval \<Rightarrow> exn + string" where
  "sample_format v =
     (case v of PStr s \<Rightarrow> Inr s | _ \<Rightarrow> Inl (OtherException ''value outside the table''))"

definition sample_env :: env where
  "sample_env = \<lparr>adapter = sample_adapter, json_dumps = sample_dumps,
                  json_loads = sample_loads, py_format = sample_format\<rparr>"

section \<open>Properties\<close>

lemmas prog_defs = ret_def lib_def bind_p_def seq_p_def logger_info_def logger_error_def
  spotify_client_def try_except_def no_trace_def

lemmas sample_defs = sample_env_def sample_adapter_def sample_dumps_def sample_loads_def
  sample_format_def





lemma bind_lib_Inl: "bind_p (lib (Inl e)) f t = (Inl e, t)"
  by (simp add: bind_p_def lib_def)

subsection \<open>Writing integers\<close>

text \<open>The decimal text of \<open>n\<close> has at most \<open>d\<close> digits exactly when \<open>n < 10 ^ d\<close>.\<close>

lemma str_nat_length: "0 < d \<Longrightarrow> length (str_nat n) \<le> d \<longleftrightarrow> n < 10 ^ d"
proof (induction n arbitrary: d rule: str_nat.induct)
  case (1 n)
  show ?case
  proof (cases "n < 10")
    case True
    have "(10::nat) ^ 1 \<le> 10 ^ d"
      using 1(2) by (intro power_increasing) simp_all
    with True 1(2) show ?thesis
      by (simp add: str_nat.simps [of n] Suc_le_eq)
  next
    case False
    show ?thesis
    proof (cases "d = 1")
      case True
      have "0 < length (str_nat (n div 10))"
        by (subst str_nat.simps) simp
      with False True show ?thesis
        by (simp add: str_nat.simps [of n])
    next
      case d: False
      with 1(2) obtain d' where d': "d = Suc d'" "0 < d'"
        by (cases d) auto
      have "length (str_nat (n div 10)) \<le> d' \<longleftrightarrow> n div 10 < 10 ^ d'"
        using 1(1) [OF False d'(2)] .
      moreover have "n div 10 < 10 ^ d' \<longleftrightarrow> n < 10 ^ Suc d'"
        by (simp add: div_less_iff_less_mult mult.commute)
      ultimately show ?thesis
        using False d' by (simp add: str_nat.simps [of n])
    qed
  qed
qed

lemma str_int_over:
  assumes "10 ^ int_max_str_digits \<le> \<bar>i\<bar>"
  shows "str_int i = Inl str_digits_error"
proof -
  have p: "0 < int_max_str_digits" by (simp add: int_max_str_digits_def)
  have "(10::nat) ^ int_max_str_digits \<le> nat \<bar>i\<bar>"
    using assms by (simp add: le_nat_iff)
  then have "\<not> length (str_nat (nat \<bar>i\<bar>)) \<le> int_max_str_digits"
    using str_nat_length [OF p, of "nat \<bar>i\<bar>"] by simp
  then show ?thesis by (simp add: str_int_def Let_def)
qed

lemma str_int_within:
  assumes "\<bar>i\<bar> < 10 ^ int_max_str_digits"
  shows "str_int i = Inr (if i < 0 then CHR ''-'' # str_nat (nat \<bar>i\<bar>) else str_nat (nat \<bar>i\<bar>))"
proof -
  have p: "0 < int_max_str_digits" by (simp add: int_max_str_digits_def)
  have "nat \<bar>i\<bar> < 10 ^ int_max_str_digits"
    using assms by (simp add: nat_less_iff)
  then have "length (str_nat (nat \<bar>i\<bar>)) \<le> int_max_str_digits"
    using str_nat_length [OF p, of "nat \<bar>i\<bar>"] by simp
  then show ?thesis by (simp add: str_int_def Let_def)
qed

text \<open>\<open>renderable\<close> is exactly the domain on which the conversion returns.\<close>

lemma renderable_iff: "renderable p \<longleftrightarrow> (\<exists>s. fmt_opt_int p = Inr s)"
proof (cases p)
  case None
  then show ?thesis by simp
next
  case (Some k)
  show ?thesis
  proof (cases "\<bar>k\<bar> < 10 ^ int_max_str_digits")
    case True
    with Some show ?thesis by (simp add: str_int_within)
  next
    case False
    then have "str_int k = Inl str_digits_error"
      by (intro str_int_over) simp
    with Some False show ?thesis by simp
  qed
qed

lemma not_renderable: "\<not> renderable p \<Longrightarrow> fmt_opt_int p = Inl str_digits_error"
  by (cases p) (simp_all add: str_int_over)

lemma less_ten_within: "\<bar>k\<bar> < 10 \<Longrightarrow> \<bar>k :: int\<bar> < 10 ^ int_max_str_digits"
proof -
  assume a: "\<bar>k\<bar> < 10"
  have "(10::int) ^ 1 \<le> 10 ^ int_max_str_digits"
    by (intro power_increasing) (simp_all add: int_max_str_digits_def)
  with a show ?thesis by simp
qed

lemma renderable_or_int:
  assumes "renderable p" and "\<bar>d\<bar> < 10"
  shows "\<exists>s. str_int (or_int p d) = Inr s"
proof -
  have "\<bar>or_int p d\<bar> < 10 ^ int_max_str_digits"
    using assms less_ten_within [of d] by (cases p) auto
  then show ?thesis by (simp add: str_int_within)
qed


subsection \<open>Every tool hands a string back\<close>




text \<open>
  Outside that domain the conversion of the parameter raises before the \<open>try\<close> block is
  entered, and the exception leaves the tool.
\<close>

lemma tool_raises_on_long_integer:
  assumes "\<not> renderable (int_argument req)"
  shows "call_tool E req = (Inl str_digits_error, no_trace)"
  using assms not_renderable [OF assms]
  by (cases req)
     (simp_all add: SpotifyPlayback_def SpotifySearch_def bind_lib_Inl)

subsection \<open>Exceptions of the adapter\<close>

lemma handlers_calls [simp]: "calls (snd (handlers e t)) = calls t"
  by (cases e) (simp_all add: seq_p_def bind_p_def logger_error_def ret_def)

lemma handlers_reported:
  "error_count t = 0 \<Longrightarrow> vendor_error_reported e (handlers e t)"
  by (cases e)
     (simp_all add: vendor_error_reported_def error_count_def seq_p_def bind_p_def
        logger_error_def ret_def)


lemma playback_calls:
  "calls (snd (SpotifyPlayback E action spotify_uri num_skips)) =
     (if \<not> renderable num_skips then []
      else if action = ''get'' then [get_current_track]
      else if action = ''start'' then [start_playback spotify_uri]
      else if action = ''pause'' then [pause_playback]
      else if action = ''skip'' then [skip_track (or_int num_skips 1)]
      else [])"
proof (cases "renderable num_skips")
  case False
  then show ?thesis
    by (simp add: SpotifyPlayback_def not_renderable bind_lib_Inl no_trace_def)
next
  case True
  then obtain shown where s: "fmt_opt_int num_skips = Inr shown"
    by (auto simp: renderable_iff)
  from True obtain shown_n where n: "str_int (or_int num_skips 1) = Inr shown_n"
    using renderable_or_int [of num_skips 1] by auto
  show ?thesis
    using True s n
    by (simp add: SpotifyPlayback_def prog_defs Let_def split: sum.split prod.split)
qed

lemma error_count_mk [simp]:
  "error_count \<lparr>logged = l, calls = cs\<rparr> = length (filter (\<lambda>(lv, msg). lv = ERROR) l)"
  by (simp add: error_count_def)

lemma playback_failure:
  assumes "c \<in> set (calls (snd (SpotifyPlayback E action spotify_uri num_skips)))"
    and "adapter E c = Inl e"
  shows "vendor_error_reported e (SpotifyPlayback E action spotify_uri num_skips)"
proof -
  from assms(1) have r: "renderable num_skips"
    by (simp add: playback_calls split: if_splits)
  then obtain shown where s: "fmt_opt_int num_skips = Inr shown"
    by (auto simp: renderable_iff)
  from r obtain shown_n where n: "str_int (or_int num_skips 1) = Inr shown_n"
    using renderable_or_int [of num_skips 1] by auto
  from assms(1) r have
    "(action = ''get'' \<and> c = get_current_track)
     \<or> (action = ''start'' \<and> c = start_playback spotify_uri)
     \<or> (action = ''pause'' \<and> c = pause_playback)
     \<or> (action = ''skip'' \<and> c = skip_track (or_int num_skips 1))"
    by (simp add: playback_calls split: if_splits)
  then show ?thesis
    using assms(2) s n
    by (elim disjE conjE)
       (simp_all add: SpotifyPlayback_def prog_defs Let_def handlers_reported)
qed

lemma search_failure:
  assumes "c \<in> set (calls (snd (SpotifySearch E query qtype limit)))"
    and "adapter E c = Inl e"
  shows "vendor_error_reported e (SpotifySearch E query qtype limit)"
proof (cases "renderable limit")
  case False
  then have "calls (snd (SpotifySearch E query qtype limit)) = []"
    by (simp add: SpotifySearch_def not_renderable bind_lib_Inl no_trace_def)
  with assms(1) show ?thesis by simp
next
  case True
  then obtain shown where s: "fmt_opt_int limit = Inr shown"
    by (auto simp: renderable_iff)
  then have "calls (snd (SpotifySearch E query qtype limit))
          = [search query (or_str qtype ''track'') (or_int limit 10)]"
    by (simp add: SpotifySearch_def prog_defs split: sum.split prod.split)
  with assms s show ?thesis
    by (simp add: SpotifySearch_def prog_defs handlers_reported)
qed

lemma queue_calls:
  "calls (snd (SpotifyQueue E action track_id)) =
     (if action = ''add'' \<and> truthy_str track_id then [add_to_queue track_id]
      else if action = ''get'' then [get_queue]
      else [])"
  by (simp add: SpotifyQueue_def prog_defs split: sum.split prod.split)

lemma queue_failure:
  assumes "c \<in> set (calls (snd (SpotifyQueue E action track_id)))"
    and "adapter E c = Inl e"
  shows "vendor_error_reported e (SpotifyQueue E action track_id)"
proof -
  from assms(1) have
    "(action = ''add'' \<and> truthy_str track_id \<and> c = add_to_queue track_id)
     \<or> (action = ''get'' \<and> c = get_queue)"
    by (simp add: queue_calls split: if_splits)
  then show ?thesis
    using assms(2)
    by (elim disjE conjE)
       (simp_all add: SpotifyQueue_def prog_defs handlers_reported)
qed

lemma get_info_failure:
  assumes "c \<in> set (calls (snd (SpotifyGetInfo E item_uri)))"
    and "adapter E c = Inl e"
  shows "vendor_error_reported e (SpotifyGetInfo E item_uri)"
proof -
  have "calls (snd (SpotifyGetInfo E item_uri)) = [get_info item_uri]"
    by (simp add: SpotifyGetInfo_def prog_defs split: sum.split prod.split)
  with assms show ?thesis
    by (simp add: SpotifyGetInfo_def prog_defs handlers_reported)
qed



lemma decode_track_ids_Some:
  "track_ids_arg E track_ids = Some v \<Longrightarrow> decode_track_ids E track_ids rest = rest v"
  by (cases track_ids)
     (auto simp: track_ids_arg_def decode_track_ids_def split: sum.splits)

lemma decode_track_ids_None:
  "track_ids_arg E track_ids = None \<Longrightarrow> snd (decode_track_ids E track_ids rest t) = t"
  by (cases track_ids)
     (auto simp: track_ids_arg_def decode_track_ids_def ret_def lib_def split: sum.splits exn.splits)

lemma try_except_calls: "calls (snd (try_except body t)) = calls (snd (body t))"
  by (auto simp: try_except_def split: prod.splits sum.splits)

lemma playlist_get_failure:
  assumes "c \<in> set (calls (snd (SpotifyPlaylist E ''get'' playlist_id track_ids name description)))"
    and "adapter E c = Inl e"
  shows "vendor_error_reported e (SpotifyPlaylist E ''get'' playlist_id track_ids name description)"
proof -
  have "calls (snd (SpotifyPlaylist E ''get'' playlist_id track_ids name description))
          = [get_current_user_playlists]"
    by (simp add: SpotifyPlaylist_def prog_defs split: sum.split prod.split)
  with assms show ?thesis
    by (simp add: SpotifyPlaylist_def prog_defs handlers_reported)
qed

lemma playlist_get_tracks_failure:
  assumes "c \<in> set (calls (snd (SpotifyPlaylist E ''get_tracks'' playlist_id track_ids name description)))"
    and "adapter E c = Inl e"
  shows "vendor_error_reported e (SpotifyPlaylist E ''get_tracks'' playlist_id track_ids name description)"
proof -
  have "calls (snd (SpotifyPlaylist E ''get_tracks'' playlist_id track_ids name description))
          = (if truthy_str playlist_id then [get_playlist_tracks playlist_id] else [])"
    by (simp add: SpotifyPlaylist_def prog_defs split: sum.split prod.split)
  with assms have "truthy_str playlist_id" "c = get_playlist_tracks playlist_id"
    by (simp_all split: if_splits)
  with assms(2) show ?thesis
    by (simp add: SpotifyPlaylist_def prog_defs handlers_reported)
qed

lemma playlist_add_failure:
  assumes "c \<in> set (calls (snd (SpotifyPlaylist E ''add_tracks'' playlist_id track_ids name description)))"
    and "adapter E c = Inl e"
  shows "vendor_error_reported e (SpotifyPlaylist E ''add_tracks'' playlist_id track_ids name description)"
proof (cases "truthy_str playlist_id \<and> truthy track_ids")
  case False
  then have "calls (snd (SpotifyPlaylist E ''add_tracks'' playlist_id track_ids name description)) = []"
    by (auto simp: SpotifyPlaylist_def prog_defs)
  with assms(1) show ?thesis by simp
next
  case True
  show ?thesis
  proof (cases "track_ids_arg E track_ids")
    case None
    with True have "calls (snd (SpotifyPlaylist E ''add_tracks'' playlist_id track_ids name description)) = []"
      by (simp add: SpotifyPlaylist_def seq_p_def bind_p_def logger_info_def no_trace_def
            try_except_calls decode_track_ids_None)
    with assms(1) show ?thesis by simp
  next
    case (Some v)
    with True have "calls (snd (SpotifyPlaylist E ''add_tracks'' playlist_id track_ids name description))
            = [add_tracks_to_playlist playlist_id v]"
      by (simp add: SpotifyPlaylist_def decode_track_ids_Some prog_defs split: sum.split prod.split)
    with assms have "adapter E (add_tracks_to_playlist playlist_id v) = Inl e"
      by simp
    with True Some show ?thesis
      by (simp add: SpotifyPlaylist_def decode_track_ids_Some prog_defs handlers_reported)
  qed
qed

lemma playlist_remove_failure:
  assumes "c \<in> set (calls (snd (SpotifyPlaylist E ''remove_tracks'' playlist_id track_ids name description)))"
    and "adapter E c = Inl e"
  shows "vendor_error_reported e (SpotifyPlaylist E ''remove_tracks'' playlist_id track_ids name description)"
proof (cases "truthy_str playlist_id \<and> truthy track_ids")
  case False
  then have "calls (snd (SpotifyPlaylist E ''remove_tracks'' playlist_id track_ids name description)) = []"
    by (auto simp: SpotifyPlaylist_def prog_defs)
  with assms(1) show ?thesis by simp
next
  case True
  show ?thesis
  proof (cases "track_ids_arg E track_ids")
    case None
    with True have "calls (snd (SpotifyPlaylist E ''remove_tracks'' playlist_id track_ids name description)) = []"
      by (simp add: SpotifyPlaylist_def seq_p_def bind_p_def logger_info_def no_trace_def
            try_except_calls decode_track_ids_None)
    with assms(1) show ?thesis by simp
  next
    case (Some v)
    with True have "calls (snd (SpotifyPlaylist E ''remove_tracks'' playlist_id track_ids name description))
            = [remove_tracks_from_playlist playlist_id v]"
      by (simp add: SpotifyPlaylist_def decode_track_ids_Some prog_defs split: sum.split prod.split)
    with assms have "adapter E (remove_tracks_from_playlist playlist_id v) = Inl e"
      by simp
    with True Some show ?thesis
      by (simp add: SpotifyPlaylist_def decode_track_ids_Some prog_defs handlers_reported)
  qed
qed

lemma playlist_change_failure:
  assumes "c \<in> set (calls (snd (SpotifyPlaylist E ''change_details'' playlist_id track_ids name description)))"
    and "adapter E c = Inl e"
  shows "vendor_error_reported e (SpotifyPlaylist E ''change_details'' playlist_id track_ids name description)"
proof -
  have "calls (snd (SpotifyPlaylist E ''change_details'' playlist_id track_ids name description))
          = (if truthy_str playlist_id \<and> (truthy_str name \<or> truthy_str description)
             then [change_playlist_details playlist_id name description] else [])"
    by (simp add: SpotifyPlaylist_def prog_defs split: sum.split prod.split)
  with assms have "truthy_str playlist_id" "truthy_str name \<or> truthy_str description"
      "adapter E (change_playlist_details playlist_id name description) = Inl e"
    by (simp_all split: if_splits)
  then show ?thesis
    by (auto simp: SpotifyPlaylist_def prog_defs handlers_reported)
qed

lemma playlist_unknown_calls:
  "action \<notin> set playlist_actions \<Longrightarrow>
   calls (snd (SpotifyPlaylist E action playlist_id track_ids name description)) = []"
  by (simp add: SpotifyPlaylist_def playlist_actions_def prog_defs)

lemma playlist_failure:
  assumes "c \<in> set (calls (snd (SpotifyPlaylist E action playlist_id track_ids name description)))"
    and "adapter E c = Inl e"
  shows "vendor_error_reported e (SpotifyPlaylist E action playlist_id track_ids name description)"
proof -
  consider "action = ''get''" | "action = ''get_tracks''" | "action = ''add_tracks''"
    | "action = ''remove_tracks''" | "action = ''change_details''"
    | "action \<notin> set playlist_actions"
    unfolding playlist_actions_def by auto
  then show ?thesis
    using assms
    by cases
       (simp_all add: playlist_get_failure playlist_get_tracks_failure playlist_add_failure
          playlist_remove_failure playlist_change_failure playlist_unknown_calls)
qed

text \<open>
  C2. Whenever the adapter method a tool invokes raises, a vendor exception with message
  \<open>m\<close> comes back as "An error occurred with the Spotify Client: m" (the form
  "error occurred with the Spotify Client: m" after the leading "An "), and
  \<open>logger.error\<close> is called exactly once, with a line that carries \<open>m\<close>; any other
  exception \<open>e\<close> comes back as "Unexpected error occurred: " followed by \<open>str(e)\<close>.
\<close>

theorem adapter_exception_to_string:
  assumes "c \<in> set (calls (snd (call_tool E req)))" and "adapter E c = Inl e"
  shows "(\<forall>m. e = SpotifyException m \<longrightarrow>
            fst (call_tool E req) = Inr (''An '' @ ''error occurred with the Spotify Client: '' @ m)
            \<and> error_count (snd (call_tool E req)) = 1
            \<and> (ERROR, ''Spotify Client error occurred: '' @ m) \<in> set (logged (snd (call_tool E req))))
         \<and> ((\<forall>m. e \<noteq> SpotifyException m) \<longrightarrow>
            fst (call_tool E req) = Inr (''Unexpected error occurred: '' @ str_exn e))"
proof -
  have "vendor_error_reported e (call_tool E req)"
    using assms
    by (cases req)
       (simp_all add: playback_failure search_failure queue_failure get_info_failure
          playlist_failure)
  then show ?thesis
    unfolding vendor_error_reported_def .
qed

theorem adapter_exception_to_string_witness:
  "pause_playback \<in> set (calls (snd (call_tool sample_env (Playback ''pause'' None None))))
   \<and> adapter sample_env pause_playback
       = Inl (SpotifyException ''http status: 404, code: -1 - No active device found'')
   \<and> fst (call_tool sample_env (Playback ''pause'' None None))
       = Inr ''An error occurred with the Spotify Client: http status: 404, code: -1 - No active device found''
   \<and> error_count (snd (call_tool sample_env (Playback ''pause'' None None))) = 1
   \<and> get_queue \<in> set (calls (snd (call_tool sample_env (Queue ''get'' None))))
   \<and> adapter sample_env get_queue = Inl (OtherException ''Connection aborted.'')
   \<and> fst (call_tool sample_env (Queue ''get'' None))
       = Inr ''Unexpected error occurred: Connection aborted.''"
proof -
  have p: "pause_playback \<in> set (calls (snd (call_tool sample_env (Playback ''pause'' None None))))"
    by (simp add: playback_calls)
  have pa: "adapter sample_env pause_playback
       = Inl (SpotifyException ''http status: 404, code: -1 - No active device found'')"
    by (simp add: sample_defs)
  have q: "get_queue \<in> set (calls (snd (call_tool sample_env (Queue ''get'' None))))"
    by (simp add: queue_calls)
  have qa: "adapter sample_env get_queue = Inl (OtherException ''Connection aborted.'')"
    by (simp add: sample_defs)
  show ?thesis
    using p pa q qa adapter_exception_to_string [OF p pa] adapter_exception_to_string [OF q qa]
    by simp
qed

subsection \<open>Unknown actions and missing parameters\<close>




text \<open>
  C4. \<open>SpotifyQueue\<close> with action "add" and no \<open>track_id\<close> returns
  "track_id is required for add action" and calls no adapter method: the check comes
  before the call.
\<close>

theorem queue_add_requires_track_id:
  "fst (SpotifyQueue E ''add'' None) = Inr ''track_id is required for add action''
   \<and> calls (snd (SpotifyQueue E ''add'' None)) = []"
  by (simp add: SpotifyQueue_def prog_defs)

theorem queue_add_requires_track_id_witness:
  "fst (SpotifyQueue sample_env ''add'' None) = Inr ''track_id is required for add action''
   \<and> calls (snd (SpotifyQueue sample_env ''add'' None)) = []"
  by (rule queue_add_requires_track_id)

subsection \<open>Track ids of a playlist\<close>

text \<open>
  Where a JSON text and the list it encodes are treated alike by "add_tracks": for a
  non-empty list, and for every list when no playlist id is given. The result, the log
  and the adapter call are then the same.
\<close>

lemma add_tracks_json_string_same_as_list:
  assumes "json_array_of E s L" and "L \<noteq> [] \<or> \<not> truthy_str playlist_id"
  shows "SpotifyPlaylist E ''add_tracks'' playlist_id (PStr s) name description
         = SpotifyPlaylist E ''add_tracks'' playlist_id (PList (map PStr L)) name description"
  using assms
  by (auto simp: SpotifyPlaylist_def decode_track_ids_def json_array_of_def)

text \<open>
  C5. The code departs from the claim at the empty list when a playlist id is given.
  The required-field test \<open>not track_ids\<close> is made on the value as it arrives, before a
  text is decoded: the text "[]" is a non-empty string, passes the test, is decoded and
  reaches the adapter as an empty list, while the list \<open>[]\<close> fails the test and gets
  the required-field message with no adapter call.
\<close>

theorem add_tracks_encoded_empty_list_differs:
  assumes "truthy_str playlist_id" and "json_array_of E ''[]'' []"
  shows "calls (snd (SpotifyPlaylist E ''add_tracks'' playlist_id (PStr ''[]'') name description))
           = [add_tracks_to_playlist playlist_id (PList [])]
         \<and> fst (SpotifyPlaylist E ''add_tracks'' playlist_id (PList []) name description)
           = Inr ''playlist_id and track_ids are required for add_tracks action.''
         \<and> calls (snd (SpotifyPlaylist E ''add_tracks'' playlist_id (PList []) name description)) = []"
  using assms
  by (simp add: SpotifyPlaylist_def decode_track_ids_def json_array_of_def prog_defs
        split: sum.split prod.split)

theorem add_tracks_encoded_empty_list_differs_witness:
  "truthy_str (Some ''p1'') \<and> json_array_of sample_env ''[]'' []
   \<and> fst (SpotifyPlaylist sample_env ''add_tracks'' (Some ''p1'') (PStr ''[]'') None None)
       = Inr ''Tracks added to playlist.''
   \<and> calls (snd (SpotifyPlaylist sample_env ''add_tracks'' (Some ''p1'') (PStr ''[]'') None None))
       = [add_tracks_to_playlist (Some ''p1'') (PList [])]
   \<and> fst (SpotifyPlaylist sample_env ''add_tracks'' (Some ''p1'') (PList []) None None)
       = Inr ''playlist_id and track_ids are required for add_tracks action.''
   \<and> calls (snd (SpotifyPlaylist sample_env ''add_tracks'' (Some ''p1'') (PList []) None None)) = []"
proof -
  have t: "truthy_str (Some ''p1'')" by simp
  have j: "json_array_of sample_env ''[]'' []"
    by (simp add: json_array_of_def sample_defs)
  have r: "fst (SpotifyPlaylist sample_env ''add_tracks'' (Some ''p1'') (PStr ''[]'') None None)
       = Inr ''Tracks added to playlist.''"
    by (simp add: SpotifyPlaylist_def decode_track_ids_def prog_defs sample_defs)
  show ?thesis
    using t j r add_tracks_encoded_empty_list_differs [OF t j, of None None] by simp
qed

text \<open>
  C6, as amended. With a playlist id given, "add_tracks" and "remove_tracks" with
  \<open>track_ids\<close> a non-empty string on which \<open>json.loads\<close> raises
  \<open>JSONDecodeError\<close> return "Error: track_ids must be a list or a valid JSON array."
  and call no adapter method. The empty string is not valid JSON either, but it fails the
  truth test before any decoding and gets the required-field message.
\<close>

theorem malformed_json_track_ids:
  assumes "truthy_str playlist_id" and "s \<noteq> []" and "json_loads E s = Inl (JSONDecodeError m)"
  shows "fst (SpotifyPlaylist E ''add_tracks'' playlist_id (PStr s) name description)
           = Inr ''Error: track_ids must be a list or a valid JSON array.''
         \<and> calls (snd (SpotifyPlaylist E ''add_tracks'' playlist_id (PStr s) name description)) = []
         \<and> fst (SpotifyPlaylist E ''remove_tracks'' playlist_id (PStr s) name description)
           = Inr ''Error: track_ids must be a list or a valid JSON array.''
         \<and> calls (snd (SpotifyPlaylist E ''remove_tracks'' playlist_id (PStr s) name description)) = []"
  using assms
  by (simp add: SpotifyPlaylist_def decode_track_ids_def prog_defs)

theorem malformed_json_track_ids_witness:
  "truthy_str (Some ''p1'') \<and> ''not json'' \<noteq> []
   \<and> json_loads sample_env ''not json''
       = Inl (JSONDecodeError ''Expecting value: line 1 column 1 (char 0)'')
   \<and> fst (SpotifyPlaylist sample_env ''add_tracks'' (Some ''p1'') (PStr ''not json'') None None)
       = Inr ''Error: track_ids must be a list or a valid JSON array.''
   \<and> calls (snd (SpotifyPlaylist sample_env ''add_tracks'' (Some ''p1'') (PStr ''not json'') None None)) = []
   \<and> fst (SpotifyPlaylist sample_env ''remove_tracks'' (Some ''p1'') (PStr ''not json'') None None)
       = Inr ''Error: track_ids must be a list or a valid JSON array.''
   \<and> calls (snd (SpotifyPlaylist sample_env ''remove_tracks'' (Some ''p1'') (PStr ''not json'') None None)) = []"
proof -
  have t: "truthy_str (Some ''p1'')" by simp
  have n: "''not json'' \<noteq> []" by simp
  have j: "json_loads sample_env ''not json''
       = Inl (JSONDecodeError ''Expecting value: line 1 column 1 (char 0)'')"
    by (simp add: sample_defs)
  show ?thesis
    using t n j malformed_json_track_ids [OF t n j, of None None] by simp
qed

theorem empty_string_track_ids_counterexample:
  "truthy_str (Some ''p1'')
   \<and> json_loads sample_env [] = Inl (JSONDecodeError ''Expecting value: line 1 column 1 (char 0)'')
   \<and> fst (SpotifyPlaylist sample_env ''add_tracks'' (Some ''p1'') (PStr []) None None)
       = Inr ''playlist_id and track_ids are required for add_tracks action.''
   \<and> fst (SpotifyPlaylist sample_env ''add_tracks'' (Some ''p1'') (PStr []) None None)
       \<noteq> Inr ''Error: track_ids must be a list or a valid JSON array.''"
  by (simp add: SpotifyPlaylist_def decode_track_ids_def prog_defs sample_defs)

text \<open>
  C7. "change_details" with a playlist id and neither name nor description returns
  "At least one of name or description is required." and calls no adapter method.
\<close>

theorem change_details_requires_field:
  assumes "truthy_str playlist_id"
  shows "fst (SpotifyPlaylist E ''change_details'' playlist_id track_ids None None)
           = Inr ''At least one of name or description is required.''
         \<and> calls (snd (SpotifyPlaylist E ''change_details'' playlist_id track_ids None None)) = []"
  using assms by (simp add: SpotifyPlaylist_def prog_defs)

theorem change_details_requires_field_witness:
  "truthy_str (Some ''p1'')
   \<and> fst (SpotifyPlaylist sample_env ''change_details'' (Some ''p1'') PNone None None)
           = Inr ''At least one of name or description is required.''
   \<and> calls (snd (SpotifyPlaylist sample_env ''change_details'' (Some ''p1'') PNone None None)) = []"
  using change_details_requires_field [of "Some ''p1''" sample_env PNone] by simp

text \<open>
  C9. "add_tracks" and "remove_tracks" with \<open>track_ids\<close> the empty list return the
  required-field message of the action and call no adapter method, whatever the
  playlist id: the check tests the truth of \<open>track_ids\<close>, not its presence.
\<close>

theorem empty_track_list_is_missing:
  "fst (SpotifyPlaylist E ''add_tracks'' playlist_id (PList []) name description)
      = Inr ''playlist_id and track_ids are required for add_tracks action.''
   \<and> calls (snd (SpotifyPlaylist E ''add_tracks'' playlist_id (PList []) name description)) = []
   \<and> fst (SpotifyPlaylist E ''remove_tracks'' playlist_id (PList []) name description)
      = Inr ''playlist_id and track_ids are required for remove_tracks action.''
   \<and> calls (snd (SpotifyPlaylist E ''remove_tracks'' playlist_id (PList []) name description)) = []"
  by (simp add: SpotifyPlaylist_def prog_defs)

theorem empty_track_list_is_missing_witness:
  "fst (SpotifyPlaylist sample_env ''add_tracks'' (Some ''p1'') (PList []) None None)
      = Inr ''playlist_id and track_ids are required for add_tracks action.''
   \<and> calls (snd (SpotifyPlaylist sample_env ''add_tracks'' (Some ''p1'') (PList []) None None)) = []
   \<and> fst (SpotifyPlaylist sample_env ''remove_tracks'' (Some ''p1'') (PList []) None None)
      = Inr ''playlist_id and track_ids are required for remove_tracks action.''
   \<and> calls (snd (SpotifyPlaylist sample_env ''remove_tracks'' (Some ''p1'') (PList []) None None)) = []"
  by (rule empty_track_list_is_missing)

subsection \<open>Defaults of search and skip\<close>

text \<open>
  C8. \<open>SpotifySearch\<close> with neither \<open>qtype\<close> nor \<open>limit\<close> calls the adapter's
  search exactly once, with type "track" and limit 10; when the search returns \<open>v\<close> and
  \<open>json.dumps(v, indent=2)\<close> yields \<open>s\<close>, the tool returns \<open>s\<close>.
\<close>

theorem search_defaults:
  "calls (snd (SpotifySearch E query None None)) = [search query ''track'' 10]
   \<and> (\<forall>v s. adapter E (search query ''track'' 10) = Inr v \<and> json_dumps E v 2 = Inr s \<longrightarrow>
        fst (SpotifySearch E query None None) = Inr s)"
  by (auto simp: SpotifySearch_def prog_defs split: sum.splits exn.splits)

theorem search_defaults_witness:
  "calls (snd (SpotifySearch sample_env ''abba'' None None)) = [search ''abba'' ''track'' 10]
   \<and> adapter sample_env (search ''abba'' ''track'' 10) = Inr (PDict [])
   \<and> json_dumps sample_env (PDict []) 2 = Inr ''{}''
   \<and> fst (SpotifySearch sample_env ''abba'' None None) = Inr ''{}''"
  using search_defaults [of sample_env "''abba''"] by (simp add: sample_defs)




end
